theory Spec2Isabelle
  imports Main
begin

section \<open>JSON values and the JavaScript and VTL operations the templates use\<close>

text \<open>
  Everything that crosses a boundary in \<^verbatim>\<open>cdk/fruit-api.ts\<close> is JSON: the Lambda event, the
  Lambda result that the resolver sees as \<^verbatim>\<open>ctx.result\<close>, the DynamoDB commands and their
  outputs. An object is an association list, in key order; lookup is \<open>map_of\<close>.
  Numbers are integers (the schema's \<^verbatim>\<open>Int\<close>), held as doubles by JavaScript (see
  \<open>round_double\<close>); a string is a list of code units below 256; JavaScript's
  \<^verbatim>\<open>undefined\<close> is \<open>None\<close> of \<open>json option\<close>.
\<close>

datatype json =
    JNull
  | JBool bool
  | JNum int
  | JStr string
  | JArr "json list"
  | JObj "(string \<times> json) list"

type_synonym obj = "(string \<times> json) list"

text \<open>The reserved field of the convention.\<close>

definition sentinel :: string where
  "sentinel = ''__evictFromApiCache''"

text \<open>
  \<^verbatim>\<open>delete ctx.result.__evictFromApiCache\<close> and \<^verbatim>\<open>$ctx.result.remove('__evictFromApiCache')\<close>:
  the key leaves the object, the other entries keep their order and values.
\<close>

definition obj_remove :: "string \<Rightarrow> obj \<Rightarrow> obj" where
  "obj_remove k kvs = filter (\<lambda>p. fst p \<noteq> k) kvs"

text \<open>JavaScript truthiness, as \<^verbatim>\<open>if (x)\<close>, \<^verbatim>\<open>x || y\<close>, \<^verbatim>\<open>!x\<close> and \<^verbatim>\<open>x ? a : b\<close> test it.\<close>

fun js_truthy :: "json option \<Rightarrow> bool" where
  "js_truthy None = False"
| "js_truthy (Some JNull) = False"
| "js_truthy (Some (JBool b)) = b"
| "js_truthy (Some (JNum n)) = (n \<noteq> 0)"
| "js_truthy (Some (JStr s)) = (s \<noteq> [])"
| "js_truthy (Some (JArr xs)) = True"
| "js_truthy (Some (JObj kvs)) = True"

text \<open>
  A JavaScript property read \<^verbatim>\<open>x.k\<close> for the keys this program reads (\<^verbatim>\<open>error\<close>,
  \<^verbatim>\<open>message\<close>, \<^verbatim>\<open>type\<close>, \<^verbatim>\<open>arguments\<close>, \<^verbatim>\<open>bowlId\<close>, \<^verbatim>\<open>Item\<close>, ...): an object yields its
  entry, strings, numbers, booleans and arrays have no such property. The source reads a
  property of a possibly null or undefined value only behind a truthiness test or with
  \<^verbatim>\<open>?.\<close>, and both yield \<^verbatim>\<open>undefined\<close> there.
\<close>

fun js_prop :: "json option \<Rightarrow> string \<Rightarrow> json option" where
  "js_prop (Some (JObj kvs)) k = map_of kvs k"
| "js_prop v k = None"

text \<open>
  Decimal notation, as \<^verbatim>\<open>String(n)\<close> writes an integer and as a property key names an
  array position. Characters are taken by their codes: \<^verbatim>\<open>0\<close> is 48.
\<close>

definition digit_char :: "nat \<Rightarrow> char" where
  "digit_char d = char_of (48 + d)"

fun string_of_nat :: "nat \<Rightarrow> string" where
  "string_of_nat n =
     (if n < 10 then [digit_char n] else string_of_nat (n div 10) @ [digit_char (n mod 10)])"

declare string_of_nat.simps [simp del]

definition string_of_int :: "int \<Rightarrow> string" where
  "string_of_int i = (if i < 0 then CHR ''-'' # string_of_nat (nat (- i)) else string_of_nat (nat i))"

text \<open>Errors of the whole program, as values.\<close>

datatype error =
    ResolverError "json option" "json option"
      \<comment> \<open>\<^verbatim>\<open>util.error(message, type)\<close>, \<^verbatim>\<open>$util.error(message, type)\<close>\<close>
  | TypeError
      \<comment> \<open>thrown by the JavaScript runtime\<close>
  | TemplateError
      \<comment> \<open>a method invocation that fails while the VTL engine evaluates a reference\<close>
  | ServiceError string
      \<comment> \<open>thrown by \<^verbatim>\<open>ddb.send\<close>\<close>

text \<open>
  One call of the platform primitive \<^verbatim>\<open>extensions.evictFromApiCache(a, b, c)\<close>: its three
  positional arguments. The calls a template issues are its side channel; they are
  collected in order, and stay issued when the template fails afterwards.
\<close>

type_synonym evict_call = "json option \<times> json option \<times> json option"

type_synonym outcome = "evict_call list \<times> (error + obj)"

text \<open>
  The loop of both templates: the body evaluates the three arguments of the call from the
  element, then issues the call; an error in the body ends the loop and the template.
\<close>

fun for_each :: "(json \<Rightarrow> error + evict_call) \<Rightarrow> json list \<Rightarrow> evict_call list \<times> error option" where
  "for_each body [] = ([], None)"
| "for_each body (evict # rest) =
     (case body evict of
        Inl e \<Rightarrow> ([], Some e)
      | Inr call \<Rightarrow> (case for_each body rest of (calls, r) \<Rightarrow> (call # calls, r)))"

subsection \<open>The JavaScript resolver\<close>

text \<open>
  \<^verbatim>\<open>evict[i]\<close> in JavaScript: an array yields its element or \<^verbatim>\<open>undefined\<close>, a string its
  character, an object the entry under the key \<^verbatim>\<open>"i"\<close>, a number or boolean \<^verbatim>\<open>undefined\<close>;
  reading an index of \<^verbatim>\<open>null\<close> throws a TypeError. The template reads 0, 1 and 2 only.
\<close>

fun js_index :: "json \<Rightarrow> nat \<Rightarrow> error + json option" where
  "js_index JNull i = Inl TypeError"
| "js_index (JArr xs) i = Inr (if i < length xs then Some (xs ! i) else None)"
| "js_index (JStr s) i = Inr (if i < length s then Some (JStr [s ! i]) else None)"
| "js_index (JObj kvs) i = Inr (map_of kvs (string_of_nat i))"
| "js_index v i = Inr None"

definition js_evict_args :: "json \<Rightarrow> error + evict_call" where
  "js_evict_args evict =
     (case js_index evict 0 of Inl e \<Rightarrow> Inl e | Inr a \<Rightarrow>
      (case js_index evict 1 of Inl e \<Rightarrow> Inl e | Inr b \<Rightarrow>
       (case js_index evict 2 of Inl e \<Rightarrow> Inl e | Inr c \<Rightarrow> Inr (a, b, c))))"

text \<open>
  \<^verbatim>\<open>
  export function response(ctx) {
    if (ctx.result.error) {
      util.error(ctx.result.error.message, ctx.result.error.type);
    }
    if (ctx.result.__evictFromApiCache) {
      ctx.result.__evictFromApiCache.forEach(evict => {
        extensions.evictFromApiCache(evict[0], evict[1], evict[2]);
      });
      delete ctx.result.__evictFromApiCache;
    }
    return ctx.result;
  }
  \<close>
  \<^verbatim>\<open>ctx.result\<close> is the object the Lambda returned. \<^verbatim>\<open>util.error\<close> throws. Only an array has
  \<^verbatim>\<open>forEach\<close>: on any other truthy value the call throws a TypeError.
\<close>

definition response :: "obj \<Rightarrow> outcome" where
  "response result =
     (if js_truthy (map_of result ''error'') then
        ([], Inl (ResolverError (js_prop (map_of result ''error'') ''message'')
                                (js_prop (map_of result ''error'') ''type'')))
      else if js_truthy (map_of result sentinel) then
        (case map_of result sentinel of
           Some (JArr batch) \<Rightarrow>
             (case for_each js_evict_args batch of
                (calls, Some e) \<Rightarrow> (calls, Inl e)
              | (calls, None) \<Rightarrow> (calls, Inr (obj_remove sentinel result)))
         | _ \<Rightarrow> ([], Inl TypeError))
      else ([], Inr result))"

subsection \<open>The VTL resolver\<close>

text \<open>
  VTL has no \<^verbatim>\<open>undefined\<close>: a reference into a map (\<^verbatim>\<open>$m.k\<close>, \<^verbatim>\<open>$m['k']\<close>) is the entry or
  null, and a property of anything that is not a map is null.
\<close>

fun vtl_prop :: "json \<Rightarrow> string \<Rightarrow> json" where
  "vtl_prop (JObj kvs) k = (case map_of kvs k of None \<Rightarrow> JNull | Some v \<Rightarrow> v)"
| "vtl_prop v k = JNull"

definition util_isNull :: "json \<Rightarrow> bool" where
  "util_isNull v = (v = JNull)"

text \<open>
  \<^verbatim>\<open>#foreach\<close> runs over the elements of a list and over the values of a map, and not at
  all over anything else. \<^verbatim>\<open>$evict[i]\<close> is \<^verbatim>\<open>get(i)\<close>: the element of a list, a failed
  method invocation beyond its end, null on anything that is not a list. Only lists of
  lists of at least three elements belong to the data model; the other cases are the
  engine's, written down so that the function is total.
\<close>

fun vtl_items :: "json \<Rightarrow> json list" where
  "vtl_items (JArr xs) = xs"
| "vtl_items (JObj kvs) = map snd kvs"
| "vtl_items v = []"

fun vtl_index :: "json \<Rightarrow> nat \<Rightarrow> error + json" where
  "vtl_index (JArr xs) i = (if i < length xs then Inr (xs ! i) else Inl TemplateError)"
| "vtl_index v i = Inr JNull"

definition vtl_evict_args :: "json \<Rightarrow> error + evict_call" where
  "vtl_evict_args evict =
     (case vtl_index evict 0 of Inl e \<Rightarrow> Inl e | Inr a \<Rightarrow>
      (case vtl_index evict 1 of Inl e \<Rightarrow> Inl e | Inr b \<Rightarrow>
       (case vtl_index evict 2 of Inl e \<Rightarrow> Inl e | Inr c \<Rightarrow> Inr (Some a, Some b, Some c))))"

text \<open>
  \<^verbatim>\<open>
  #if (!$util.isNull($ctx.result.error))
    $util.error($ctx.result.error.message, $ctx.result.error.type)
  #end

  #if (!$util.isNull($ctx.result['__evictFromApiCache']))
    #foreach($evict in $ctx.result['__evictFromApiCache'])
      $extensions.evictFromApiCache($evict[0], $evict[1], $evict[2])
    #end
  #end

  $util.qr($ctx.result.remove('__evictFromApiCache'))
  $util.toJson($ctx.result)
  \<close>
  \<^verbatim>\<open>$util.error\<close> throws and ends the evaluation. The template's value is the JSON of the
  result object after the removal.
\<close>

definition responseMappingTemplate :: "obj \<Rightarrow> outcome" where
  "responseMappingTemplate result =
     (if \<not> util_isNull (vtl_prop (JObj result) ''error'') then
        ([], Inl (ResolverError (Some (vtl_prop (vtl_prop (JObj result) ''error'') ''message''))
                                (Some (vtl_prop (vtl_prop (JObj result) ''error'') ''type''))))
      else
        (case (if \<not> util_isNull (vtl_prop (JObj result) sentinel)
               then for_each vtl_evict_args (vtl_items (vtl_prop (JObj result) sentinel))
               else ([], None)) of
           (calls, Some e) \<Rightarrow> (calls, Inl e)
         | (calls, None) \<Rightarrow> (calls, Inr (obj_remove sentinel result))))"

section \<open>The eviction batch and its wire form\<close>

text \<open>
  An instruction is the triple (operationType, fieldName, keyArguments). In the data
  model the first two are strings and the third an object; neither template inspects
  them, so they are any JSON values here.
\<close>

type_synonym instruction = "json \<times> json \<times> json"

text \<open>
  Modelled from the spec: the batch encoding of section 6, an ordered sequence of
  3-element tuples \<^verbatim>\<open>[operationType, fieldName, keyArguments]\<close>. The source has no encoder
  function; the Lambda handlers write one such tuple as a literal.
\<close>

definition encode_instruction :: "instruction \<Rightarrow> json" where
  "encode_instruction i =
     (case i of (operationType, fieldName, keyArguments) \<Rightarrow>
        JArr [operationType, fieldName, keyArguments])"

definition encode_batch :: "instruction list \<Rightarrow> json" where
  "encode_batch batch = JArr (map encode_instruction batch)"

text \<open>The call that evicts what an instruction names.\<close>

definition call_of :: "instruction \<Rightarrow> evict_call" where
  "call_of i =
     (case i of (operationType, fieldName, keyArguments) \<Rightarrow>
        (Some operationType, Some fieldName, Some keyArguments))"

text \<open>
  Decoding is what the loop of a template does with the wire form: it reads positions 0,
  1 and 2 of each tuple (\<open>body\<close> is \<open>js_evict_args\<close> or \<open>vtl_evict_args\<close>). A position
  that is \<^verbatim>\<open>undefined\<close>, or a failed read, gives no batch.
\<close>

fun instruction_of_call :: "evict_call \<Rightarrow> instruction option" where
  "instruction_of_call (Some a, Some b, Some c) = Some (a, b, c)"
| "instruction_of_call call = None"

fun decode_batch :: "(json \<Rightarrow> error + evict_call) \<Rightarrow> json \<Rightarrow> instruction list option" where
  "decode_batch body (JArr tuples) =
     (case for_each body tuples of
        (calls, None) \<Rightarrow> those (map instruction_of_call calls)
      | (calls, Some e) \<Rightarrow> None)"
| "decode_batch body v = None"

text \<open>
  The shapes of the data model, as tests on JSON: a batch is an array of 3-element
  arrays; a result carries no error when its \<^verbatim>\<open>error\<close> field is absent or null (both
  templates then pass their first test); an error object has a message and a type.
\<close>

fun is_instruction_tuple :: "json \<Rightarrow> bool" where
  "is_instruction_tuple (JArr [a, b, c]) = True"
| "is_instruction_tuple v = False"

fun is_batch :: "json \<Rightarrow> bool" where
  "is_batch (JArr tuples) = list_all is_instruction_tuple tuples"
| "is_batch v = False"

definition carries_no_error :: "obj \<Rightarrow> bool" where
  "carries_no_error result =
     (map_of result ''error'' = None \<or> map_of result ''error'' = Some JNull)"

fun is_error_object :: "json \<Rightarrow> bool" where
  "is_error_object (JObj kvs) = (map_of kvs ''message'' \<noteq> None \<and> map_of kvs ''type'' \<noteq> None)"
| "is_error_object v = False"

definition augmented_result :: "obj \<Rightarrow> bool" where
  "augmented_result result =
     ((case map_of result ''error'' of
         None \<Rightarrow> True | Some JNull \<Rightarrow> True | Some e \<Rightarrow> is_error_object e) \<and>
      (case map_of result sentinel of
         None \<Rightarrow> True | Some batch \<Rightarrow> is_batch batch))"

section \<open>The Lambda handlers\<close>

text \<open>
  JavaScript numbers are IEEE doubles. The numbers of this program are integers, and every
  integer-valued double is an \<open>int\<close>, so \<open>JNum n\<close> stands for the double nearest to \<open>n\<close>
  (what the JSON literal \<open>n\<close> denotes). \<open>round_double\<close> rounds a magnitude to 53
  significant bits, ties to even; \<open>None\<close> is an overflow to Infinity. Up to \<open>2 ^ 53\<close>
  every integer is a double.
\<close>

fun bit_length :: "nat \<Rightarrow> nat" where
  "bit_length n = (if n = 0 then 0 else Suc (bit_length (n div 2)))"

declare bit_length.simps [simp del]

definition round_double :: "nat \<Rightarrow> nat option" where
  "round_double m =
     (if m \<le> 2 ^ 53 then Some m
      else
        (let e = bit_length m - 53;
             q = m div 2 ^ e;
             r = m mod 2 ^ e;
             q' = (if 2 ^ (e - 1) < r \<or> (r = 2 ^ (e - 1) \<and> odd q) then q + 1 else q)
         in if q' * 2 ^ e < 2 ^ 1024 then Some (q' * 2 ^ e) else None))"

datatype js_number = NaN | PosInfinity | NegInfinity | Finite int

definition to_number :: "bool \<Rightarrow> nat \<Rightarrow> js_number" where
  \<comment> \<open>the Number value of the integer with this sign and magnitude\<close>
  "to_number negative m =
     (case round_double m of
        None \<Rightarrow> if negative then NegInfinity else PosInfinity
      | Some d \<Rightarrow> Finite (if negative then - int d else int d))"

definition json_of_number :: "js_number \<Rightarrow> json" where
  \<comment> \<open>a number in the JSON a handler returns: NaN and the infinities are written as null\<close>
  "json_of_number x = (case x of Finite n \<Rightarrow> JNum n | _ \<Rightarrow> JNull)"

text \<open>
  \<^verbatim>\<open>String(x)\<close> of a number (Number::toString, radix 10) writes the shortest digit string
  \<open>s\<close> and exponent \<open>e\<close> with \<open>s * 10 ^ e\<close> rounding to \<open>x\<close>, the one nearest to \<open>x\<close> when
  there are two: as plain digits followed by \<open>e\<close> zeros when that has at most 21 digits,
  in exponent notation otherwise. Up to \<open>2 ^ 53\<close> these are the decimal digits of \<open>x\<close>.
\<close>

definition digit_candidates :: "nat \<Rightarrow> nat \<Rightarrow> nat \<Rightarrow> (nat \<times> nat) list" where
  "digit_candidates x len k =
     (let e = len - k;
          s = x div 10 ^ e;
          below = (round_double (s * 10 ^ e) = Some x);
          above = (s + 1 < 10 ^ k \<and> round_double ((s + 1) * 10 ^ e) = Some x)
      in if below \<and> above then
           (if x - s * 10 ^ e < (s + 1) * 10 ^ e - x then [(s, e)]
            else if (s + 1) * 10 ^ e - x < x - s * 10 ^ e then [(s + 1, e)]
            else if even s then [(s, e)] else [(s + 1, e)])
         else if below then [(s, e)]
         else if above then [(s + 1, e)]
         else [])"

definition shortest_digits :: "nat \<Rightarrow> nat \<times> nat" where
  "shortest_digits x =
     (let len = length (string_of_nat x) in
      if round_double (10 ^ len) = Some x then (1, len)
      else
        (case concat (map (digit_candidates x len) [1..<Suc len]) of
           [] \<Rightarrow> (x, 0)
         | c # cs \<Rightarrow> c))"

definition Number_toString :: "nat \<Rightarrow> string" where
  "Number_toString x =
     (if x \<le> 2 ^ 53 then string_of_nat x
      else
        (case shortest_digits x of (s, e) \<Rightarrow>
           (let ds = string_of_nat s; k = length ds; n = k + e in
            if n \<le> 21 then ds @ replicate e (CHR ''0'')
            else (if k = 1 then ds else take 1 ds @ ''.'' @ drop 1 ds)
                   @ ''e+'' @ string_of_nat (n - 1))))"

definition String_of_number :: "int \<Rightarrow> string" where
  "String_of_number n =
     (case round_double (nat \<bar>n\<bar>) of
        None \<Rightarrow> if n < 0 then ''-Infinity'' else ''Infinity''
      | Some d \<Rightarrow> (if n < 0 then ''-'' else []) @ Number_toString d)"

text \<open>
  \<^verbatim>\<open>String(v)\<close> on a JSON value or \<^verbatim>\<open>undefined\<close>. An array joins its elements with commas,
  null elements as empty strings.
\<close>

fun js_join :: "string list \<Rightarrow> string" where
  "js_join [] = []"
| "js_join [s] = s"
| "js_join (s # t # ss) = s @ '','' @ js_join (t # ss)"

fun String_of :: "json \<Rightarrow> string" where
  "String_of JNull = ''null''"
| "String_of (JBool b) = (if b then ''true'' else ''false'')"
| "String_of (JNum n) = String_of_number n"
| "String_of (JStr s) = s"
| "String_of (JArr xs) = js_join (map (\<lambda>x. if x = JNull then [] else String_of x) xs)"
| "String_of (JObj kvs) = ''[object Object]''"

definition js_String :: "json option \<Rightarrow> string" where
  "js_String v = (case v of None \<Rightarrow> ''undefined'' | Some j \<Rightarrow> String_of j)"

text \<open>
  \<^verbatim>\<open>parseInt(s)\<close> with no radix: leading white space is skipped, then a sign, then
  \<^verbatim>\<open>0x\<close> or \<^verbatim>\<open>0X\<close> selects radix 16, then the longest run of digits of the radix is
  read; none at all gives NaN. The integer read is returned as a Number, that is, rounded
  to a double. A \<open>char\<close> is a UTF-16 code unit below 256; of these, white space
  (StrWhiteSpaceChar) is 9 to 13, 32 and 160 (the no-break space). The digits are \<^verbatim>\<open>0\<close> to
  \<^verbatim>\<open>9\<close> (48 to 57), \<^verbatim>\<open>a\<close> to \<^verbatim>\<open>f\<close> (97 to 102) and \<^verbatim>\<open>A\<close> to \<^verbatim>\<open>F\<close> (65 to 70).
\<close>

definition is_js_space :: "char \<Rightarrow> bool" where
  "is_js_space c = ((of_char c :: nat) \<in> {9, 10, 11, 12, 13, 32, 160})"

definition digit_value :: "char \<Rightarrow> nat option" where
  "digit_value c =
     (let n = of_char c in
      if 48 \<le> n \<and> n \<le> 57 then Some (n - 48)
      else if 97 \<le> n \<and> n \<le> 102 then Some (n - 87)
      else if 65 \<le> n \<and> n \<le> 70 then Some (n - 55)
      else None)"

fun leading_digits :: "nat \<Rightarrow> string \<Rightarrow> nat list" where
  "leading_digits R [] = []"
| "leading_digits R (c # cs) =
     (case digit_value c of
        Some d \<Rightarrow> if d < R then d # leading_digits R cs else []
      | None \<Rightarrow> [])"

definition digits_in :: "nat \<Rightarrow> string \<Rightarrow> nat option" where
  "digits_in R s =
     (if leading_digits R s = [] then None
      else Some (foldl (\<lambda>acc d. acc * R + d) 0 (leading_digits R s)))"

definition strip_prefix :: "string \<Rightarrow> string \<Rightarrow> string option" where
  "strip_prefix p s = (if take (length p) s = p then Some (drop (length p) s) else None)"

definition parse_magnitude :: "string \<Rightarrow> nat option" where
  "parse_magnitude s =
     (case strip_prefix ''0x'' s of
        Some r \<Rightarrow> digits_in 16 r
      | None \<Rightarrow>
          (case strip_prefix ''0X'' s of
             Some r \<Rightarrow> digits_in 16 r
           | None \<Rightarrow> digits_in 10 s))"

definition signed_number :: "bool \<Rightarrow> nat option \<Rightarrow> js_number" where
  "signed_number negative magnitude =
     (case magnitude of None \<Rightarrow> NaN | Some m \<Rightarrow> to_number negative m)"

definition parseInt :: "string \<Rightarrow> js_number" where
  "parseInt s =
     (let t = dropWhile is_js_space s in
      case strip_prefix ''-'' t of
        Some r \<Rightarrow> signed_number True (parse_magnitude r)
      | None \<Rightarrow>
          (case strip_prefix ''+'' t of
             Some r \<Rightarrow> signed_number False (parse_magnitude r)
           | None \<Rightarrow> signed_number False (parse_magnitude t)))"

text \<open>
  An object literal as it leaves the process: a property whose value is \<^verbatim>\<open>undefined\<close> is
  not serialised.
\<close>

definition js_fields :: "(string \<times> json option) list \<Rightarrow> obj" where
  "js_fields props = List.map_filter (\<lambda>p. map_option (Pair (fst p)) (snd p)) props"

definition js_object :: "(string \<times> json option) list \<Rightarrow> json" where
  "js_object props = JObj (js_fields props)"

text \<open>
  The DynamoDB client is the platform's: \<^verbatim>\<open>ddb.send(command)\<close> is a parameter that answers
  a command with its output or throws. \<^verbatim>\<open>process.env.TABLE_NAME\<close> is a parameter too. The
  five-second delay at the head of each handler is not modelled.
\<close>

datatype ddb_command = GetItemCommand json | PutItemCommand json

type_synonym ddb_client = "ddb_command \<Rightarrow> error + json"

text \<open>\<^verbatim>\<open>const bowlId = event.arguments?.bowlId || event.bowlId;\<close>\<close>

definition event_bowlId :: "obj \<Rightarrow> json option" where
  "event_bowlId event =
     (if js_truthy (js_prop (map_of event ''arguments'') ''bowlId'')
      then js_prop (map_of event ''arguments'') ''bowlId''
      else map_of event ''bowlId'')"

text \<open>
  \<^verbatim>\<open>
  exports.handler = async (event) => {
    const bowlId = event.arguments?.bowlId || event.bowlId;
    try {
      const result = await ddb.send(new GetItemCommand({
        TableName: process.env.TABLE_NAME,
        Key: { bowlId: { N: String(bowlId) } }
      }));
      if (!result.Item) return null;
      return {
        type: result.Item.fruitType?.S || null,
        quantity: result.Item.quantity?.N ? parseInt(result.Item.quantity.N) : null
      };
    } catch (error) {
      return null;
    }
  };
  \<close>
  \<open>FruitFunction_try\<close> is the body of the \<^verbatim>\<open>try\<close>.
\<close>

definition js_or_null :: "json option \<Rightarrow> json" where
  \<comment> \<open>\<^verbatim>\<open>v || null\<close>\<close>
  "js_or_null v = (case v of None \<Rightarrow> JNull | Some x \<Rightarrow> if js_truthy (Some x) then x else JNull)"

definition GetItem_input :: "string \<Rightarrow> json option \<Rightarrow> json" where
  "GetItem_input TABLE_NAME bowlId =
     js_object
       [(''TableName'', Some (JStr TABLE_NAME)),
        (''Key'', Some (js_object
           [(''bowlId'', Some (js_object [(''N'', Some (JStr (js_String bowlId)))]))]))]"

definition FruitFunction_try :: "string \<Rightarrow> ddb_client \<Rightarrow> json option \<Rightarrow> error + json" where
  "FruitFunction_try TABLE_NAME send bowlId =
     (case send (GetItemCommand (GetItem_input TABLE_NAME bowlId)) of
        Inl e \<Rightarrow> Inl e
      | Inr result \<Rightarrow>
          (let Item = js_prop (Some result) ''Item'' in
           if \<not> js_truthy Item then Inr JNull
           else Inr (JObj
             [(''type'', js_or_null (js_prop (js_prop Item ''fruitType'') ''S'')),
              (''quantity'',
                 (if js_truthy (js_prop (js_prop Item ''quantity'') ''N'')
                  then json_of_number (parseInt (js_String (js_prop (js_prop Item ''quantity'') ''N'')))
                  else JNull))])))"

definition FruitFunction_handler :: "string \<Rightarrow> ddb_client \<Rightarrow> obj \<Rightarrow> error + json" where
  "FruitFunction_handler TABLE_NAME send event =
     (case FruitFunction_try TABLE_NAME send (event_bowlId event) of
        Inl error \<Rightarrow> Inr JNull
      | Inr v \<Rightarrow> Inr v)"

text \<open>
  The two evicting handlers, \<^verbatim>\<open>PickFruitVtlFunction\<close> and \<^verbatim>\<open>PickFruitJSFunction\<close>, have
  the same text:
  \<^verbatim>\<open>
  exports.handler = async (event) => {
    const bowlId = event.arguments?.bowlId || event.bowlId;
    const fruits = ['apple', 'banana', ...];
    const fruitType = fruits[Math.floor(Math.random() * fruits.length)];
    const quantity = Math.floor(Math.random() * 10) + 1;
    await ddb.send(new PutItemCommand({
      TableName: process.env.TABLE_NAME,
      Item: {
        bowlId: { N: String(bowlId) },
        fruitType: { S: fruitType },
        quantity: { N: String(quantity) }
      }
    }));
    return {
      __evictFromApiCache: [['Query', 'fruit', { 'context.arguments.bowlId': bowlId }]],
      type: fruitType,
      quantity
    };
  };
  \<close>
  The values of the two floored draws, \<^verbatim>\<open>Math.floor(Math.random() * fruits.length)\<close> and
  \<^verbatim>\<open>Math.floor(Math.random() * 10)\<close>, are the parameters \<open>i\<close> and \<open>j\<close>. A handler yields
  the commands it sent and its result, or the error \<^verbatim>\<open>ddb.send\<close> threw.
\<close>

definition fruits :: "string list" where
  "fruits =
     [''apple'', ''banana'', ''orange'', ''grape'', ''mango'', ''strawberry'', ''blueberry'',
      ''raspberry'', ''blackberry'', ''pineapple'', ''watermelon'', ''cantaloupe'', ''honeydew'',
      ''kiwi'', ''papaya'', ''peach'', ''pear'', ''plum'', ''cherry'', ''apricot'', ''lemon'',
      ''lime'', ''grapefruit'', ''tangerine'', ''pomegranate'', ''coconut'', ''fig'', ''guava'',
      ''lychee'', ''passion fruit'', ''dragon fruit'', ''star fruit'', ''persimmon'',
      ''nectarine'', ''cranberry'', ''gooseberry'', ''mulberry'', ''elderberry'',
      ''boysenberry'', ''kumquat'', ''clementine'', ''mandarin'', ''blood orange'', ''plantain'',
      ''date'', ''prune'', ''raisin'', ''currant'', ''quince'', ''jackfruit'']"

definition js_nth :: "'a list \<Rightarrow> nat \<Rightarrow> 'a option" where
  "js_nth xs i = (if i < length xs then Some (xs ! i) else None)"

definition PutItem_input :: "string \<Rightarrow> json option \<Rightarrow> string option \<Rightarrow> int \<Rightarrow> json" where
  "PutItem_input TABLE_NAME bowlId fruitType quantity =
     js_object
       [(''TableName'', Some (JStr TABLE_NAME)),
        (''Item'', Some (js_object
           [(''bowlId'', Some (js_object [(''N'', Some (JStr (js_String bowlId)))])),
            (''fruitType'', Some (js_object [(''S'', map_option JStr fruitType)])),
            (''quantity'', Some (js_object [(''N'', Some (JStr (js_String (Some (JNum quantity)))))]))]))]"

definition PickFruitVtlFunction_handler ::
    "string \<Rightarrow> ddb_client \<Rightarrow> nat \<Rightarrow> nat \<Rightarrow> obj \<Rightarrow> ddb_command list \<times> (error + obj)" where
  "PickFruitVtlFunction_handler TABLE_NAME send i j event =
     (let bowlId = event_bowlId event;
          fruitType = js_nth fruits i;
          quantity = int j + 1;
          command = PutItemCommand (PutItem_input TABLE_NAME bowlId fruitType quantity)
      in case send command of
           Inl e \<Rightarrow> ([command], Inl e)
         | Inr out \<Rightarrow>
             ([command], Inr (js_fields
                [(sentinel, Some (JArr [JArr [JStr ''Query'', JStr ''fruit'',
                     js_object [(''context.arguments.bowlId'', bowlId)]]])),
                 (''type'', map_option JStr fruitType),
                 (''quantity'', Some (JNum quantity))])))"

definition PickFruitJSFunction_handler ::
    "string \<Rightarrow> ddb_client \<Rightarrow> nat \<Rightarrow> nat \<Rightarrow> obj \<Rightarrow> ddb_command list \<times> (error + obj)" where
  "PickFruitJSFunction_handler TABLE_NAME send i j event =
     (let bowlId = event_bowlId event;
          fruitType = js_nth fruits i;
          quantity = int j + 1;
          command = PutItemCommand (PutItem_input TABLE_NAME bowlId fruitType quantity)
      in case send command of
           Inl e \<Rightarrow> ([command], Inl e)
         | Inr out \<Rightarrow>
             ([command], Inr (js_fields
                [(sentinel, Some (JArr [JArr [JStr ''Query'', JStr ''fruit'',
                     js_object [(''context.arguments.bowlId'', bowlId)]]])),
                 (''type'', map_option JStr fruitType),
                 (''quantity'', Some (JNum quantity))])))"

text \<open>
  Modelled from the spec: the platform's part of a mutation (sections 2 and 7). The platform
  invokes the Producer, then the Forwarder with the Producer's result; when the Producer
  fails, the failure goes the platform's own error path and the Forwarder is given no
  result, so that no eviction call can come from it. A mutation yields the commands sent
  to the table and the outcome of the resolver. \<^verbatim>\<open>pickFruitVtl\<close> and \<^verbatim>\<open>pickFruitJS\<close> are the
  two mutation fields of the cached API.
\<close>

definition mutation ::
    "(obj \<Rightarrow> outcome) \<Rightarrow> ddb_command list \<times> (error + obj) \<Rightarrow> ddb_command list \<times> outcome" where
  "mutation template invocation =
     (case invocation of
        (commands, Inl e) \<Rightarrow> (commands, ([], Inl e))
      | (commands, Inr result) \<Rightarrow> (commands, template result))"

definition pickFruitVtl ::
    "string \<Rightarrow> ddb_client \<Rightarrow> nat \<Rightarrow> nat \<Rightarrow> obj \<Rightarrow> ddb_command list \<times> outcome" where
  "pickFruitVtl TABLE_NAME send i j event =
     mutation responseMappingTemplate (PickFruitVtlFunction_handler TABLE_NAME send i j event)"

definition pickFruitJS ::
    "string \<Rightarrow> ddb_client \<Rightarrow> nat \<Rightarrow> nat \<Rightarrow> obj \<Rightarrow> ddb_command list \<times> outcome" where
  "pickFruitJS TABLE_NAME send i j event =
     mutation response (PickFruitJSFunction_handler TABLE_NAME send i j event)"





text \<open>
  What the table holds, as DynamoDB attribute values: a string attribute \<^verbatim>\<open>{ S: s }\<close> and a
  number attribute \<^verbatim>\<open>{ N: String(n) }\<close>, the two forms the handlers write. The partition key
  a handler wrote is the \<^verbatim>\<open>N\<close> of \<^verbatim>\<open>Item.bowlId\<close> in its \<^verbatim>\<open>PutItemCommand\<close>.
\<close>

definition string_attr :: "string \<Rightarrow> json" where
  "string_attr s = JObj [(''S'', JStr s)]"

definition number_attr :: "int \<Rightarrow> json" where
  "number_attr n = JObj [(''N'', JStr (string_of_int n))]"


text \<open>The batch both evicting handlers emit for bowl 1, the running example.\<close>

definition fruit_batch :: "instruction list" where
  "fruit_batch = [(JStr ''Query'', JStr ''fruit'', JObj [(''context.arguments.bowlId'', JNum 1)])]"

section \<open>Properties\<close>

subsection \<open>Objects, the loop and the two templates\<close>

lemma map_of_obj_remove_other: "k' \<noteq> k \<Longrightarrow> map_of (obj_remove k kvs) k' = map_of kvs k'"
  by (induction kvs) (auto simp: obj_remove_def)

lemma map_of_obj_remove_same: "map_of (obj_remove k kvs) k = None"
  by (induction kvs) (auto simp: obj_remove_def)

lemma obj_remove_absent: "map_of kvs k = None \<Longrightarrow> obj_remove k kvs = kvs"
  by (induction kvs) (auto simp: obj_remove_def split: if_splits)

lemma obj_remove_idem: "obj_remove k (obj_remove k kvs) = obj_remove k kvs"
  by (simp add: obj_remove_def)

lemma error_after_remove: "map_of (obj_remove sentinel result) ''error'' = map_of result ''error''"
  by (rule map_of_obj_remove_other) (simp add: sentinel_def)

lemma carries_no_error_remove: "carries_no_error (obj_remove sentinel result) = carries_no_error result"
  by (simp add: carries_no_error_def error_after_remove)

lemma js_evict_args_encode: "js_evict_args (encode_instruction i) = Inr (call_of i)"
  by (cases i) (simp add: js_evict_args_def encode_instruction_def call_of_def)

lemma vtl_evict_args_encode: "vtl_evict_args (encode_instruction i) = Inr (call_of i)"
  by (cases i) (simp add: vtl_evict_args_def encode_instruction_def call_of_def)

lemma for_each_encode:
  "(\<And>i. body (encode_instruction i) = Inr (call_of i)) \<Longrightarrow>
   for_each body (map encode_instruction batch) = (map call_of batch, None)"
  by (induction batch) auto

lemma is_instruction_tuple_encode: "is_instruction_tuple t \<Longrightarrow> \<exists>i. t = encode_instruction i"
  by (cases t rule: is_instruction_tuple.cases) (auto simp: encode_instruction_def)

lemma is_batch_encode: "is_batch v \<Longrightarrow> \<exists>batch. v = encode_batch batch"
proof (cases v)
  case (JArr ts)
  assume "is_batch v"
  with JArr have "list_all is_instruction_tuple ts" by simp
  then have "\<exists>batch. ts = map encode_instruction batch"
  proof (induction ts)
    case Nil
    then show ?case by simp
  next
    case (Cons t ts)
    from Cons.prems have t: "is_instruction_tuple t" and ts: "list_all is_instruction_tuple ts"
      by simp_all
    from t obtain i where i: "t = encode_instruction i"
      using is_instruction_tuple_encode by blast
    from Cons.IH[OF ts] obtain batch where b: "ts = map encode_instruction batch" by blast
    from i b have "t # ts = map encode_instruction (i # batch)" by simp
    then show ?case by (rule exI)
  qed
  with JArr show ?thesis by (auto simp: encode_batch_def)
qed simp_all

lemma vtl_no_error:
  assumes "carries_no_error result"
  shows "responseMappingTemplate result =
     (case (if \<not> util_isNull (vtl_prop (JObj result) sentinel)
               then for_each vtl_evict_args (vtl_items (vtl_prop (JObj result) sentinel))
               else ([], None)) of
           (calls, Some e) \<Rightarrow> (calls, Inl e)
         | (calls, None) \<Rightarrow> (calls, Inr (obj_remove sentinel result)))"
  using assms by (auto simp: responseMappingTemplate_def carries_no_error_def util_isNull_def)

lemma js_no_error:
  assumes "carries_no_error result"
  shows "response result =
     (if js_truthy (map_of result sentinel) then
        (case map_of result sentinel of
           Some (JArr batch) \<Rightarrow>
             (case for_each js_evict_args batch of
                (calls, Some e) \<Rightarrow> (calls, Inl e)
              | (calls, None) \<Rightarrow> (calls, Inr (obj_remove sentinel result)))
         | _ \<Rightarrow> ([], Inl TypeError))
      else ([], Inr result))"
  using assms by (auto simp: response_def carries_no_error_def)

lemma vtl_batch:
  assumes "carries_no_error result" "map_of result sentinel = Some (encode_batch batch)"
  shows "responseMappingTemplate result = (map call_of batch, Inr (obj_remove sentinel result))"
  using assms(2)
  by (simp add: vtl_no_error[OF assms(1)] util_isNull_def encode_batch_def
        for_each_encode[of vtl_evict_args, OF vtl_evict_args_encode])

lemma js_batch:
  assumes "carries_no_error result" "map_of result sentinel = Some (encode_batch batch)"
  shows "response result = (map call_of batch, Inr (obj_remove sentinel result))"
  using assms(2)
  by (simp add: js_no_error[OF assms(1)] encode_batch_def
        for_each_encode[of js_evict_args, OF js_evict_args_encode])

lemma vtl_absent:
  assumes "carries_no_error result" "map_of result sentinel = None \<or> map_of result sentinel = Some JNull"
  shows "responseMappingTemplate result = ([], Inr (obj_remove sentinel result))"
  using assms(2) by (auto simp: vtl_no_error[OF assms(1)] util_isNull_def)

lemma js_absent:
  assumes "carries_no_error result" "map_of result sentinel = None"
  shows "response result = ([], Inr result)"
  using assms(2) by (simp add: js_no_error[OF assms(1)])

lemma vtl_returns_clean:
  assumes "responseMappingTemplate result = (calls, Inr out)"
  shows "out = obj_remove sentinel result \<and> carries_no_error result"
  using assms
  by (auto simp: responseMappingTemplate_def carries_no_error_def util_isNull_def
           split: if_splits prod.splits option.splits json.splits)

lemma js_returns:
  assumes "response result = (calls, Inr out)"
  shows "\<not> js_truthy (map_of result ''error'') \<and>
         (out = obj_remove sentinel result \<or> (out = result \<and> \<not> js_truthy (map_of result sentinel)))"
  using assms
  by (auto simp: response_def split: if_splits prod.splits option.splits json.splits)

lemma responseMappingTemplate_clean:
  assumes "responseMappingTemplate result = (calls, Inr out)"
  shows "map_of out sentinel = None \<and> (k \<noteq> sentinel \<longrightarrow> map_of out k = map_of result k)"
  using vtl_returns_clean[OF assms]
  by (simp add: map_of_obj_remove_same map_of_obj_remove_other)

lemma response_frame:
  assumes "response result = (calls, Inr out)" "k \<noteq> sentinel"
  shows "map_of out k = map_of result k"
  using js_returns[OF assms(1)] assms(2)
  by (auto simp: map_of_obj_remove_other)

lemma response_clean_unless_falsy:
  assumes "response result = (calls, Inr out)"
    and "map_of result sentinel = None \<or> js_truthy (map_of result sentinel)"
  shows "map_of out sentinel = None"
  using js_returns[OF assms(1)] assms(2)
  by (auto simp: map_of_obj_remove_same)

lemma error_object_raise:
  assumes "map_of result ''error'' = Some e" "is_error_object e"
  shows "responseMappingTemplate result = response result"
proof -
  from assms(2) obtain kvs m t where e: "e = JObj kvs" and m: "map_of kvs ''message'' = Some m"
      and t: "map_of kvs ''type'' = Some t"
    by (cases e) auto
  from assms(1) e m t show ?thesis
    by (simp add: responseMappingTemplate_def response_def util_isNull_def)
qed

lemma vtl_second_pass:
  assumes "responseMappingTemplate result = (calls, Inr out)"
  shows "responseMappingTemplate out = ([], Inr out)"
proof -
  from vtl_returns_clean[OF assms] have o: "out = obj_remove sentinel result" and n: "carries_no_error result"
    by simp_all
  from n have "carries_no_error out" by (simp add: o carries_no_error_remove)
  moreover have "map_of out sentinel = None" by (simp add: o map_of_obj_remove_same)
  ultimately have "responseMappingTemplate out = ([], Inr (obj_remove sentinel out))"
    by (simp add: vtl_absent)
  then show ?thesis by (simp add: o obj_remove_idem)
qed

lemma js_second_pass:
  assumes "response result = (calls, Inr out)"
  shows "response out = ([], Inr out)"
proof -
  from js_returns[OF assms] have e: "\<not> js_truthy (map_of result ''error'')"
    and o: "out = obj_remove sentinel result \<or> (out = result \<and> \<not> js_truthy (map_of result sentinel))"
    by simp_all
  from o show ?thesis
  proof
    assume o1: "out = obj_remove sentinel result"
    then show ?thesis using e
      by (simp add: response_def error_after_remove map_of_obj_remove_same)
  next
    assume "out = result \<and> \<not> js_truthy (map_of result sentinel)"
    then show ?thesis using e by (simp add: response_def)
  qed
qed

lemma those_instruction_of_call: "those (map (instruction_of_call \<circ> call_of) batch) = Some batch"
  by (induction batch) (auto simp: call_of_def)

subsection \<open>The Forwarder\<close>

text \<open>
  Claim C1, with the one condition the error test of both templates forces: for every
  inbound result that carries no error and whose sentinel field holds a batch of
  instructions, both templates call the eviction primitive exactly once per instruction,
  in batch order, with the instruction's three components as the three positional
  arguments.
\<close>

theorem eviction_once_per_instruction:
  assumes "carries_no_error result" "map_of result sentinel = Some (encode_batch batch)"
  shows "fst (responseMappingTemplate result) = map call_of batch \<and>
         fst (response result) = map call_of batch"
  by (simp add: vtl_batch[OF assms] js_batch[OF assms])

theorem eviction_once_per_instruction_witness:
  "carries_no_error [(sentinel, encode_batch fruit_batch), (''type'', JStr ''apple''), (''quantity'', JNum 5)]
   \<and> fst (responseMappingTemplate [(sentinel, encode_batch fruit_batch), (''type'', JStr ''apple''), (''quantity'', JNum 5)])
       = [(Some (JStr ''Query''), Some (JStr ''fruit''), Some (JObj [(''context.arguments.bowlId'', JNum 1)]))]
   \<and> fst (response [(sentinel, encode_batch fruit_batch), (''type'', JStr ''apple''), (''quantity'', JNum 5)])
       = [(Some (JStr ''Query''), Some (JStr ''fruit''), Some (JObj [(''context.arguments.bowlId'', JNum 1)]))]"
  using eviction_once_per_instruction[of "[(sentinel, encode_batch fruit_batch), (''type'', JStr ''apple''), (''quantity'', JNum 5)]" fruit_batch]
  by (simp add: carries_no_error_def sentinel_def fruit_batch_def call_of_def)

text \<open>
  As stated, without the condition, C1 fails: a result with a batch and an error object
  is stopped at the error test of either template, and no call is issued for its one
  instruction.
\<close>

theorem eviction_skipped_on_error_counterexample:
  "fst (responseMappingTemplate
          [(''error'', JObj [(''message'', JStr ''write failed''), (''type'', JStr ''WriteError'')]),
           (sentinel, encode_batch fruit_batch)]) \<noteq> map call_of fruit_batch
   \<and> fst (response
          [(''error'', JObj [(''message'', JStr ''write failed''), (''type'', JStr ''WriteError'')]),
           (sentinel, encode_batch fruit_batch)]) \<noteq> map call_of fruit_batch"
  by (simp add: responseMappingTemplate_def response_def util_isNull_def fruit_batch_def)

text \<open>
  Claim C2 at the input where the JavaScript template breaks it: the sentinel is present
  and null, the test \<^verbatim>\<open>if (ctx.result.__evictFromApiCache)\<close> fails, the \<^verbatim>\<open>delete\<close> inside it
  does not run, and the returned object still has the sentinel field. The VTL template
  removes the field from the same input. (\<open>responseMappingTemplate_clean\<close>,
  \<open>response_frame\<close> and \<open>response_clean_unless_falsy\<close> above are the parts of C2 that
  hold: the VTL output never has the field, the JavaScript output has none when the
  inbound field is absent or truthy, and both leave every other field as it was.)
\<close>

theorem response_keeps_null_sentinel:
  "response [(sentinel, JNull), (''type'', JStr ''apple''), (''quantity'', JNum 5)]
     = ([], Inr [(sentinel, JNull), (''type'', JStr ''apple''), (''quantity'', JNum 5)])
   \<and> responseMappingTemplate [(sentinel, JNull), (''type'', JStr ''apple''), (''quantity'', JNum 5)]
     = ([], Inr [(''type'', JStr ''apple''), (''quantity'', JNum 5)])"
  by (simp add: response_def responseMappingTemplate_def util_isNull_def sentinel_def obj_remove_def)



text \<open>
  Claim C5, on the results of the data model: when the \<^verbatim>\<open>error\<close> field is absent, null or
  an error object with a message and a type, and the sentinel field is absent or holds a
  batch of 3-element tuples, the VTL template and the JavaScript template issue the same
  calls in the same order and end in the same cleaned result or the same error.
\<close>

theorem templates_agree_on_augmented_results:
  assumes "augmented_result result"
  shows "responseMappingTemplate result = response result"
proof (cases "carries_no_error result")
  case True
  show ?thesis
  proof (cases "map_of result sentinel")
    case None
    then show ?thesis
      using vtl_absent[OF True] js_absent[OF True] by (simp add: obj_remove_absent)
  next
    case (Some b)
    with assms have "is_batch b" by (simp add: augmented_result_def)
    then obtain batch where "b = encode_batch batch" using is_batch_encode by blast
    with Some show ?thesis by (simp add: vtl_batch[OF True] js_batch[OF True])
  qed
next
  case False
  then obtain e where e: "map_of result ''error'' = Some e" and "e \<noteq> JNull"
    by (auto simp: carries_no_error_def)
  with assms have "is_error_object e"
    by (cases e) (simp_all add: augmented_result_def)
  with e show ?thesis by (rule error_object_raise)
qed

theorem templates_agree_on_augmented_results_witness:
  "augmented_result [(sentinel, encode_batch fruit_batch), (''type'', JStr ''apple''), (''quantity'', JNum 5)]
   \<and> responseMappingTemplate [(sentinel, encode_batch fruit_batch), (''type'', JStr ''apple''), (''quantity'', JNum 5)]
     = response [(sentinel, encode_batch fruit_batch), (''type'', JStr ''apple''), (''quantity'', JNum 5)]
   \<and> response [(sentinel, encode_batch fruit_batch), (''type'', JStr ''apple''), (''quantity'', JNum 5)]
     = ([(Some (JStr ''Query''), Some (JStr ''fruit''), Some (JObj [(''context.arguments.bowlId'', JNum 1)]))],
        Inr [(''type'', JStr ''apple''), (''quantity'', JNum 5)])"
proof -
  have h: "augmented_result [(sentinel, encode_batch fruit_batch), (''type'', JStr ''apple''), (''quantity'', JNum 5)]"
    by (simp add: augmented_result_def sentinel_def fruit_batch_def encode_batch_def encode_instruction_def)
  have j: "response [(sentinel, encode_batch fruit_batch), (''type'', JStr ''apple''), (''quantity'', JNum 5)]
     = ([(Some (JStr ''Query''), Some (JStr ''fruit''), Some (JObj [(''context.arguments.bowlId'', JNum 1)]))],
        Inr [(''type'', JStr ''apple''), (''quantity'', JNum 5)])"
    by (simp add: response_def sentinel_def fruit_batch_def encode_batch_def encode_instruction_def
          js_evict_args_def obj_remove_def)
  from h templates_agree_on_augmented_results[OF h] j show ?thesis by simp
qed

text \<open>
  As stated, for every inbound result, C5 fails: \<^verbatim>\<open>error: false\<close> is not null, so the VTL
  template raises, and is not true, so the JavaScript template returns the result.
\<close>

theorem templates_differ_counterexample:
  "responseMappingTemplate [(''error'', JBool False), (''type'', JStr ''apple''), (''quantity'', JNum 5)]
     \<noteq> response [(''error'', JBool False), (''type'', JStr ''apple''), (''quantity'', JNum 5)]"
  by (simp add: responseMappingTemplate_def response_def util_isNull_def sentinel_def)

text \<open>
  Claim C7, with the condition the error test forces: a result that carries no error and
  has no sentinel field is returned unchanged by both templates, with no eviction call;
  and whatever result a template returns, the same template applied to it again issues
  no call and returns it unchanged.
\<close>

theorem forwarder_idempotent:
  "(carries_no_error result \<and> map_of result sentinel = None \<longrightarrow>
      responseMappingTemplate result = ([], Inr result) \<and> response result = ([], Inr result)) \<and>
   (responseMappingTemplate result = (calls, Inr out) \<longrightarrow>
      responseMappingTemplate out = ([], Inr out)) \<and>
   (response result = (calls', Inr out') \<longrightarrow> response out' = ([], Inr out'))"
  using vtl_absent[of result] js_absent[of result] vtl_second_pass js_second_pass
  by (auto simp: obj_remove_absent)

theorem forwarder_idempotent_witness:
  "carries_no_error [(''type'', JStr ''apple''), (''quantity'', JNum 5)] \<and>
   map_of [(''type'', JStr ''apple''), (''quantity'', JNum 5)] sentinel = None \<and>
   responseMappingTemplate [(''type'', JStr ''apple''), (''quantity'', JNum 5)]
     = ([], Inr [(''type'', JStr ''apple''), (''quantity'', JNum 5)]) \<and>
   response [(''type'', JStr ''apple''), (''quantity'', JNum 5)]
     = ([], Inr [(''type'', JStr ''apple''), (''quantity'', JNum 5)]) \<and>
   responseMappingTemplate [(sentinel, encode_batch fruit_batch), (''type'', JStr ''apple''), (''quantity'', JNum 5)]
     = (map call_of fruit_batch, Inr [(''type'', JStr ''apple''), (''quantity'', JNum 5)]) \<and>
   response [(sentinel, encode_batch fruit_batch), (''type'', JStr ''apple''), (''quantity'', JNum 5)]
     = (map call_of fruit_batch, Inr [(''type'', JStr ''apple''), (''quantity'', JNum 5)])"
proof -
  let ?clean = "[(''type'', JStr ''apple''), (''quantity'', JNum 5)]"
  let ?aug = "[(sentinel, encode_batch fruit_batch), (''type'', JStr ''apple''), (''quantity'', JNum 5)]"
  have h1: "carries_no_error ?clean"
    by (simp add: carries_no_error_def)
  have h2: "map_of ?clean sentinel = None"
    by (simp add: sentinel_def)
  have h3: "carries_no_error ?aug"
    by (simp add: carries_no_error_def sentinel_def)
  have h4: "map_of ?aug sentinel = Some (encode_batch fruit_batch)"
    by simp
  have r: "obj_remove sentinel ?aug = ?clean"
    by (simp add: obj_remove_def sentinel_def)
  have v: "responseMappingTemplate ?aug = (map call_of fruit_batch, Inr ?clean)"
    using vtl_batch[OF h3 h4] r by simp
  have j: "response ?aug = (map call_of fruit_batch, Inr ?clean)"
    using js_batch[OF h3 h4] r by simp
  from forwarder_idempotent[of ?clean "[]" ?clean "[]" ?clean]
       forwarder_idempotent[of ?aug "map call_of fruit_batch" ?clean "map call_of fruit_batch" ?clean]
       h1 h2 v j
  show ?thesis by simp
qed

text \<open>
  As stated, for every result without the sentinel field, C7 fails: a result that has no
  sentinel field but carries an error object is not returned, the error is raised.
\<close>

theorem forwarder_raises_without_sentinel_counterexample:
  "map_of [(''error'', JObj [(''message'', JStr ''write failed''), (''type'', JStr ''WriteError'')])] sentinel = None
   \<and> responseMappingTemplate [(''error'', JObj [(''message'', JStr ''write failed''), (''type'', JStr ''WriteError'')])]
       \<noteq> ([], Inr [(''error'', JObj [(''message'', JStr ''write failed''), (''type'', JStr ''WriteError'')])])
   \<and> response [(''error'', JObj [(''message'', JStr ''write failed''), (''type'', JStr ''WriteError'')])]
       \<noteq> ([], Inr [(''error'', JObj [(''message'', JStr ''write failed''), (''type'', JStr ''WriteError'')])])"
  by (simp add: responseMappingTemplate_def response_def util_isNull_def sentinel_def)

text \<open>
  Claim C8: decoding the wire form of a batch, by the reads of positions 0, 1 and 2 that
  the loop of either template makes, gives the batch back: the same instructions in the
  same order, each with its three components.
\<close>

theorem batch_round_trip:
  "decode_batch js_evict_args (encode_batch batch) = Some batch \<and>
   decode_batch vtl_evict_args (encode_batch batch) = Some batch"
  by (simp add: encode_batch_def those_instruction_of_call
        for_each_encode[of js_evict_args, OF js_evict_args_encode]
        for_each_encode[of vtl_evict_args, OF vtl_evict_args_encode])

text \<open>
  Claim C9: the removal in the VTL template does not depend on the test that guards its
  loop. For every inbound result that carries no error, whether the sentinel field is
  absent, null or a batch, the template returns the result without the sentinel field;
  when the field is null, the loop is skipped (no call) and the field is removed all the
  same.
\<close>

theorem vtl_removal_unconditional:
  assumes "carries_no_error result"
    and "map_of result sentinel = None \<or> map_of result sentinel = Some JNull \<or>
         (\<exists>batch. map_of result sentinel = Some (encode_batch batch))"
  shows "snd (responseMappingTemplate result) = Inr (obj_remove sentinel result) \<and>
         map_of (obj_remove sentinel result) sentinel = None \<and>
         (map_of result sentinel = Some JNull \<longrightarrow> fst (responseMappingTemplate result) = [])"
  using assms(2) vtl_absent[OF assms(1)] vtl_batch[OF assms(1)]
  by (auto simp: map_of_obj_remove_same)

theorem vtl_removal_unconditional_witness:
  "carries_no_error [(sentinel, JNull), (''type'', JStr ''apple''), (''quantity'', JNum 5)] \<and>
   map_of [(sentinel, JNull), (''type'', JStr ''apple''), (''quantity'', JNum 5)] sentinel = Some JNull \<and>
   responseMappingTemplate [(sentinel, JNull), (''type'', JStr ''apple''), (''quantity'', JNum 5)]
     = ([], Inr [(''type'', JStr ''apple''), (''quantity'', JNum 5)]) \<and>
   map_of [(''type'', JStr ''apple''), (''quantity'', JNum 5)] sentinel = None"
proof -
  let ?r = "[(sentinel, JNull), (''type'', JStr ''apple''), (''quantity'', JNum 5)]"
  have h1: "carries_no_error ?r"
    by (simp add: carries_no_error_def sentinel_def)
  have h2: "map_of ?r sentinel = Some JNull"
    by simp
  have h3: "map_of ?r sentinel = None \<or> map_of ?r sentinel = Some JNull \<or>
         (\<exists>batch. map_of ?r sentinel = Some (encode_batch batch))"
    using h2 by simp
  have r: "obj_remove sentinel ?r = [(''type'', JStr ''apple''), (''quantity'', JNum 5)]"
    by (simp add: obj_remove_def sentinel_def)
  from vtl_removal_unconditional[OF h1 h3] h1 h2 r show ?thesis
    by (simp add: prod_eq_iff)
qed

subsection \<open>The handlers\<close>

lemma digit_value_digit_char: "d < 10 \<Longrightarrow> digit_value (digit_char d) = Some d"
  by (simp add: digit_value_def digit_char_def)

lemma digit_char_plain:
  "d < 10 \<Longrightarrow> \<not> is_js_space (digit_char d) \<and> digit_char d \<noteq> CHR ''-'' \<and> digit_char d \<noteq> CHR ''+''
     \<and> digit_char d \<noteq> CHR ''x'' \<and> digit_char d \<noteq> CHR ''X''"
  by (auto simp: is_js_space_def digit_char_def char_of_eq_iff take_bit_nat_eq_self)

lemma string_of_nat_chars: "c \<in> set (string_of_nat n) \<Longrightarrow> \<exists>d<10. c = digit_char d"
proof (induction n rule: string_of_nat.induct)
  case (1 n)
  show ?case
  proof (cases "n < 10")
    case True
    with "1.prems" show ?thesis by (auto simp: string_of_nat.simps[of n])
  next
    case False
    with "1.prems" have "c \<in> set (string_of_nat (n div 10)) \<or> c = digit_char (n mod 10)"
      by (auto simp: string_of_nat.simps[of n])
    then show ?thesis
    proof
      assume "c \<in> set (string_of_nat (n div 10))"
      with False "1.IH" show ?thesis by blast
    next
      assume "c = digit_char (n mod 10)"
      moreover have "n mod 10 < 10" by simp
      ultimately show ?thesis by blast
    qed
  qed
qed

lemma string_of_nat_nonempty: "string_of_nat n \<noteq> []"
  by (subst string_of_nat.simps) simp

lemma leading_digits_string_of_nat:
  "foldl (\<lambda>acc d. acc * 10 + d) a (leading_digits 10 (string_of_nat n @ s)) =
   foldl (\<lambda>acc d. acc * 10 + d) (a * 10 ^ length (string_of_nat n) + n) (leading_digits 10 s)"
proof (induction n arbitrary: a s rule: string_of_nat.induct)
  case (1 n)
  show ?case
  proof (cases "n < 10")
    case True
    then show ?thesis by (simp add: string_of_nat.simps[of n] digit_value_digit_char)
  next
    case False
    have m: "n mod 10 < 10" by simp
    have "foldl (\<lambda>acc d. acc * 10 + d) a (leading_digits 10 (string_of_nat n @ s)) =
          foldl (\<lambda>acc d. acc * 10 + d) a
            (leading_digits 10 (string_of_nat (n div 10) @ (digit_char (n mod 10) # s)))"
      using False by (simp add: string_of_nat.simps[of n])
    also have "\<dots> = foldl (\<lambda>acc d. acc * 10 + d) (a * 10 ^ length (string_of_nat (n div 10)) + n div 10)
            (leading_digits 10 (digit_char (n mod 10) # s))"
      using False by (rule "1.IH")
    also have "\<dots> = foldl (\<lambda>acc d. acc * 10 + d)
            ((a * 10 ^ length (string_of_nat (n div 10)) + n div 10) * 10 + n mod 10)
            (leading_digits 10 s)"
      by (simp add: digit_value_digit_char[OF m])
    also have "(a * 10 ^ length (string_of_nat (n div 10)) + n div 10) * 10 + n mod 10 =
               a * 10 ^ length (string_of_nat n) + n"
      using False by (simp add: string_of_nat.simps[of n] algebra_simps)
    finally show ?thesis .
  qed
qed

lemma leading_digits_nonempty: "leading_digits 10 (string_of_nat n @ s) \<noteq> []"
proof (induction n arbitrary: s rule: string_of_nat.induct)
  case (1 n)
  show ?case
  proof (cases "n < 10")
    case True
    then show ?thesis by (simp add: string_of_nat.simps[of n] digit_value_digit_char)
  next
    case False
    from "1.IH"[OF False, of "digit_char (n mod 10) # s"] False show ?thesis
      by (simp add: string_of_nat.simps[of n])
  qed
qed

lemma digits_in_string_of_nat: "digits_in 10 (string_of_nat n) = Some n"
  using leading_digits_string_of_nat[of 0 n "[]"] leading_digits_nonempty[of n "[]"]
  by (simp add: digits_in_def)

lemma string_of_nat_hd: "\<exists>d<10. \<exists>cs. string_of_nat n = digit_char d # cs"
proof -
  obtain c cs where c: "string_of_nat n = c # cs"
    using string_of_nat_nonempty by (cases "string_of_nat n") auto
  then have "c \<in> set (string_of_nat n)" by simp
  with string_of_nat_chars c show ?thesis by blast
qed

lemma string_of_nat_no_sign:
  "CHR ''x'' \<notin> set (string_of_nat n) \<and> CHR ''X'' \<notin> set (string_of_nat n) \<and>
   CHR ''-'' \<notin> set (string_of_nat n) \<and> CHR ''+'' \<notin> set (string_of_nat n)"
proof -
  have "c \<notin> set (string_of_nat n)"
    if c: "c = CHR ''x'' \<or> c = CHR ''X'' \<or> c = CHR ''-'' \<or> c = CHR ''+''" for c
  proof
    assume "c \<in> set (string_of_nat n)"
    then obtain d where d: "d < 10" "c = digit_char d"
      using string_of_nat_chars by blast
    from digit_char_plain[OF d(1)] d(2) c show False by simp
  qed
  then show ?thesis by simp
qed

lemma strip_prefix_absent: "c \<in> set p \<Longrightarrow> c \<notin> set s \<Longrightarrow> strip_prefix p s = None"
  by (metis in_set_takeD option.distinct(1) strip_prefix_def)

lemma strip_prefix_string_of_nat:
  "strip_prefix ''0x'' (string_of_nat n) = None \<and> strip_prefix ''0X'' (string_of_nat n) = None \<and>
   strip_prefix ''-'' (string_of_nat n) = None \<and> strip_prefix ''+'' (string_of_nat n) = None"
  using string_of_nat_no_sign[of n]
  by (simp add: strip_prefix_absent[of "CHR ''x''"] strip_prefix_absent[of "CHR ''X''"]
        strip_prefix_absent[of "CHR ''-''"] strip_prefix_absent[of "CHR ''+''"])

lemma parse_magnitude_string_of_nat: "parse_magnitude (string_of_nat n) = Some n"
  by (simp add: parse_magnitude_def strip_prefix_string_of_nat digits_in_string_of_nat)

lemma dropWhile_string_of_nat: "dropWhile is_js_space (string_of_nat n) = string_of_nat n"
proof -
  obtain d cs where "d < 10" "string_of_nat n = digit_char d # cs"
    using string_of_nat_hd by blast
  then show ?thesis by (simp add: digit_char_plain)
qed

lemma round_double_exact: "m \<le> 2 ^ 53 \<Longrightarrow> round_double m = Some m"
  by (simp add: round_double_def)


lemma parseInt_string_of_int:
  assumes "\<bar>q\<bar> \<le> 2 ^ 53"
  shows "parseInt (string_of_int q) = Finite q"
proof (cases "q < 0")
  case True
  with assms have "nat (- q) \<le> 2 ^ 53" by (simp add: nat_le_iff)
  with True show ?thesis
    by (simp add: parseInt_def string_of_int_def is_js_space_def strip_prefix_def
          parse_magnitude_string_of_nat signed_number_def to_number_def round_double_exact)
next
  case False
  with assms have "nat q \<le> 2 ^ 53" by (simp add: nat_le_iff)
  with False show ?thesis
    by (simp add: parseInt_def string_of_int_def dropWhile_string_of_nat
          strip_prefix_string_of_nat parse_magnitude_string_of_nat signed_number_def
          to_number_def round_double_exact)
qed

lemma string_of_int_nonempty: "string_of_int q \<noteq> []"
  by (simp add: string_of_int_def string_of_nat_nonempty)

lemma FruitFunction_handler_total: "\<exists>v. FruitFunction_handler T send event = Inr v"
  by (simp add: FruitFunction_handler_def split: sum.splits)

lemma stored_type:
  assumes "map_of item ''fruitType'' = map_option string_attr ft" "ft \<noteq> Some []"
  shows "js_or_null (js_prop (js_prop (Some (JObj item)) ''fruitType'') ''S'') =
           (case ft of None \<Rightarrow> JNull | Some s \<Rightarrow> JStr s)"
  using assms by (cases ft) (simp_all add: js_or_null_def string_attr_def)

lemma stored_quantity:
  assumes "map_of item ''quantity'' = map_option number_attr q"
    and "case q of None \<Rightarrow> True | Some n \<Rightarrow> \<bar>n\<bar> \<le> 2 ^ 53"
  shows "(if js_truthy (js_prop (js_prop (Some (JObj item)) ''quantity'') ''N'')
          then json_of_number (parseInt (js_String (js_prop (js_prop (Some (JObj item)) ''quantity'') ''N'')))
          else JNull) = (case q of None \<Rightarrow> JNull | Some n \<Rightarrow> JNum n)"
  using assms
  by (cases q) (simp_all add: number_attr_def js_String_def parseInt_string_of_int
        string_of_int_nonempty json_of_number_def)








lemma mutation_failure:
  assumes "snd invocation = Inl failure"
  shows "snd (mutation template invocation) = ([], Inl failure)"
  using assms by (cases invocation) (simp add: mutation_def)



text \<open>
  Claim C3, with each template's own test of the error field: for every inbound result
  whose \<^verbatim>\<open>error\<close> field is set (present and not null), the VTL template raises the error
  with the message and type read from that field, before the sentinel is looked at, and
  issues no eviction call; the JavaScript template does the same whenever the field holds
  a value that is true in JavaScript's sense, as every error object is. And no eviction is
  performed for a mutation whose write failed: the handler throws what \<^verbatim>\<open>ddb.send\<close>
  threw and returns no result, so the mutation ends in that failure with no eviction call.
\<close>

theorem error_raised_before_eviction:
  "(map_of result ''error'' = Some e \<and> e \<noteq> JNull \<longrightarrow>
      responseMappingTemplate result =
        ([], Inl (ResolverError (Some (vtl_prop e ''message'')) (Some (vtl_prop e ''type''))))) \<and>
   (map_of result ''error'' = Some e \<and> js_truthy (Some e) \<longrightarrow>
      response result =
        ([], Inl (ResolverError (js_prop (Some e) ''message'') (js_prop (Some e) ''type'')))) \<and>
   (send (PutItemCommand (PutItem_input T (event_bowlId event) (js_nth fruits i) (int j + 1)))
      = Inl failure \<longrightarrow>
      snd (PickFruitVtlFunction_handler T send i j event) = Inl failure \<and>
      snd (PickFruitJSFunction_handler T send i j event) = Inl failure \<and>
      snd (pickFruitVtl T send i j event) = ([], Inl failure) \<and>
      snd (pickFruitJS T send i j event) = ([], Inl failure))"
proof (intro conjI impI)
  assume "map_of result ''error'' = Some e \<and> e \<noteq> JNull"
  then show "responseMappingTemplate result =
        ([], Inl (ResolverError (Some (vtl_prop e ''message'')) (Some (vtl_prop e ''type''))))"
    by (simp add: responseMappingTemplate_def util_isNull_def)
next
  assume "map_of result ''error'' = Some e \<and> js_truthy (Some e)"
  then show "response result =
        ([], Inl (ResolverError (js_prop (Some e) ''message'') (js_prop (Some e) ''type'')))"
    by (simp add: response_def)
next
  assume f: "send (PutItemCommand (PutItem_input T (event_bowlId event) (js_nth fruits i) (int j + 1)))
      = Inl failure"
  have v: "snd (PickFruitVtlFunction_handler T send i j event) = Inl failure"
    using f by (simp add: PickFruitVtlFunction_handler_def Let_def)
  have s: "snd (PickFruitJSFunction_handler T send i j event) = Inl failure"
    using f by (simp add: PickFruitJSFunction_handler_def Let_def)
  show "snd (PickFruitVtlFunction_handler T send i j event) = Inl failure"
    by (rule v)
  show "snd (PickFruitJSFunction_handler T send i j event) = Inl failure"
    by (rule s)
  show "snd (pickFruitVtl T send i j event) = ([], Inl failure)"
    unfolding pickFruitVtl_def using v by (rule mutation_failure)
  show "snd (pickFruitJS T send i j event) = ([], Inl failure)"
    unfolding pickFruitJS_def using s by (rule mutation_failure)
qed

theorem error_raised_before_eviction_witness:
  "responseMappingTemplate
     [(''error'', JObj [(''message'', JStr ''write failed''), (''type'', JStr ''WriteError'')]),
      (sentinel, encode_batch fruit_batch)] =
     ([], Inl (ResolverError (Some (JStr ''write failed'')) (Some (JStr ''WriteError'')))) \<and>
   response
     [(''error'', JObj [(''message'', JStr ''write failed''), (''type'', JStr ''WriteError'')]),
      (sentinel, encode_batch fruit_batch)] =
     ([], Inl (ResolverError (Some (JStr ''write failed'')) (Some (JStr ''WriteError'')))) \<and>
   snd (PickFruitVtlFunction_handler ''FruitTable'' (\<lambda>c. Inl (ServiceError ''ProvisionedThroughputExceededException'')) 0 4
          [(''arguments'', JObj [(''bowlId'', JNum 1)])])
     = Inl (ServiceError ''ProvisionedThroughputExceededException'') \<and>
   snd (PickFruitJSFunction_handler ''FruitTable'' (\<lambda>c. Inl (ServiceError ''ProvisionedThroughputExceededException'')) 0 4
          [(''arguments'', JObj [(''bowlId'', JNum 1)])])
     = Inl (ServiceError ''ProvisionedThroughputExceededException'') \<and>
   snd (pickFruitVtl ''FruitTable'' (\<lambda>c. Inl (ServiceError ''ProvisionedThroughputExceededException'')) 0 4
          [(''arguments'', JObj [(''bowlId'', JNum 1)])])
     = ([], Inl (ServiceError ''ProvisionedThroughputExceededException'')) \<and>
   snd (pickFruitJS ''FruitTable'' (\<lambda>c. Inl (ServiceError ''ProvisionedThroughputExceededException'')) 0 4
          [(''arguments'', JObj [(''bowlId'', JNum 1)])])
     = ([], Inl (ServiceError ''ProvisionedThroughputExceededException''))"
proof -
  let ?e = "JObj [(''message'', JStr ''write failed''), (''type'', JStr ''WriteError'')]"
  let ?r = "[(''error'', ?e), (sentinel, encode_batch fruit_batch)]"
  let ?send = "\<lambda>c::ddb_command. (Inl (ServiceError ''ProvisionedThroughputExceededException'') :: error + json)"
  let ?event = "[(''arguments'', JObj [(''bowlId'', JNum 1)])]"
  have h1: "map_of ?r ''error'' = Some ?e \<and> ?e \<noteq> JNull"
    by simp
  have h2: "map_of ?r ''error'' = Some ?e \<and> js_truthy (Some ?e)"
    by simp
  have h3: "?send (PutItemCommand (PutItem_input ''FruitTable'' (event_bowlId ?event) (js_nth fruits 0) (int 4 + 1)))
              = Inl (ServiceError ''ProvisionedThroughputExceededException'')"
    by simp
  from error_raised_before_eviction[of ?r ?e ?send "''FruitTable''" ?event 0 4
         "ServiceError ''ProvisionedThroughputExceededException''"] h1 h2 h3
  show ?thesis by simp
qed

text \<open>
  As stated, for both templates and every error field that is set, C3 fails:
  \<^verbatim>\<open>error: false\<close> is set and not null, yet the JavaScript template takes it as no error,
  issues the eviction call of the batch and returns the result.
\<close>

theorem error_false_evicts_counterexample:
  "map_of [(''error'', JBool False), (sentinel, encode_batch fruit_batch)] ''error'' = Some (JBool False) \<and>
   response [(''error'', JBool False), (sentinel, encode_batch fruit_batch)] =
     ([(Some (JStr ''Query''), Some (JStr ''fruit''), Some (JObj [(''context.arguments.bowlId'', JNum 1)]))],
      Inr [(''error'', JBool False)])"
  by (simp add: response_def sentinel_def fruit_batch_def encode_batch_def encode_instruction_def
        js_evict_args_def obj_remove_def)




text \<open>
  Claim C10, for what the handler reads back unchanged: the handler of \<^verbatim>\<open>Query.fruit\<close>
  always returns a value and never an error; it returns null when the read throws and
  when the read finds no item; otherwise it returns the object of the stored fruit type
  and the stored integer quantity, each null when its attribute is missing, provided the
  stored fruit type is not the empty string and the stored quantity is at most \<open>2 ^ 53\<close>
  in magnitude (beyond that \<^verbatim>\<open>parseInt\<close> returns the nearest double).
\<close>

theorem reader_never_fails:
  "(\<exists>v. FruitFunction_handler T send event = Inr v) \<and>
   (send (GetItemCommand (GetItem_input T (event_bowlId event))) = Inl e \<longrightarrow>
      FruitFunction_handler T send event = Inr JNull) \<and>
   (send (GetItemCommand (GetItem_input T (event_bowlId event))) = Inr result \<and>
    \<not> js_truthy (js_prop (Some result) ''Item'') \<longrightarrow>
      FruitFunction_handler T send event = Inr JNull) \<and>
   (send (GetItemCommand (GetItem_input T (event_bowlId event))) = Inr result \<and>
    js_prop (Some result) ''Item'' = Some (JObj item) \<and>
    map_of item ''fruitType'' = map_option string_attr ft \<and> ft \<noteq> Some [] \<and>
    map_of item ''quantity'' = map_option number_attr q \<and>
    (case q of None \<Rightarrow> True | Some n \<Rightarrow> \<bar>n\<bar> \<le> 2 ^ 53) \<longrightarrow>
      FruitFunction_handler T send event =
        Inr (JObj [(''type'', case ft of None \<Rightarrow> JNull | Some s \<Rightarrow> JStr s),
                   (''quantity'', case q of None \<Rightarrow> JNull | Some n \<Rightarrow> JNum n)]))"
proof (intro conjI impI)
  show "\<exists>v. FruitFunction_handler T send event = Inr v"
    by (rule FruitFunction_handler_total)
next
  assume "send (GetItemCommand (GetItem_input T (event_bowlId event))) = Inl e"
  then show "FruitFunction_handler T send event = Inr JNull"
    by (simp add: FruitFunction_handler_def FruitFunction_try_def)
next
  assume "send (GetItemCommand (GetItem_input T (event_bowlId event))) = Inr result \<and>
    \<not> js_truthy (js_prop (Some result) ''Item'')"
  then show "FruitFunction_handler T send event = Inr JNull"
    by (simp add: FruitFunction_handler_def FruitFunction_try_def)
next
  assume a: "send (GetItemCommand (GetItem_input T (event_bowlId event))) = Inr result \<and>
    js_prop (Some result) ''Item'' = Some (JObj item) \<and>
    map_of item ''fruitType'' = map_option string_attr ft \<and> ft \<noteq> Some [] \<and>
    map_of item ''quantity'' = map_option number_attr q \<and>
    (case q of None \<Rightarrow> True | Some n \<Rightarrow> \<bar>n\<bar> \<le> 2 ^ 53)"
  then have t: "js_or_null (js_prop (js_prop (Some (JObj item)) ''fruitType'') ''S'') =
           (case ft of None \<Rightarrow> JNull | Some s \<Rightarrow> JStr s)"
    by (intro stored_type) simp_all
  from a have n: "(if js_truthy (js_prop (js_prop (Some (JObj item)) ''quantity'') ''N'')
          then json_of_number (parseInt (js_String (js_prop (js_prop (Some (JObj item)) ''quantity'') ''N'')))
          else JNull) = (case q of None \<Rightarrow> JNull | Some n \<Rightarrow> JNum n)"
    by (intro stored_quantity) simp_all
  from a show "FruitFunction_handler T send event =
        Inr (JObj [(''type'', case ft of None \<Rightarrow> JNull | Some s \<Rightarrow> JStr s),
                   (''quantity'', case q of None \<Rightarrow> JNull | Some n \<Rightarrow> JNum n)])"
    by (simp add: FruitFunction_handler_def FruitFunction_try_def t n del: js_prop.simps)
qed

theorem reader_never_fails_witness:
  "FruitFunction_handler ''FruitTable''
       (\<lambda>c. Inr (JObj [(''Item'', JObj [(''bowlId'', number_attr 1), (''fruitType'', string_attr ''apple''),
                                         (''quantity'', number_attr 5)])]))
       [(''arguments'', JObj [(''bowlId'', JNum 1)])]
     = Inr (JObj [(''type'', JStr ''apple''), (''quantity'', JNum 5)]) \<and>
   FruitFunction_handler ''FruitTable'' (\<lambda>c. Inr (JObj []))
       [(''arguments'', JObj [(''bowlId'', JNum 1)])] = Inr JNull \<and>
   FruitFunction_handler ''FruitTable'' (\<lambda>c. Inl (ServiceError ''ResourceNotFoundException''))
       [(''arguments'', JObj [(''bowlId'', JNum 1)])] = Inr JNull"
proof -
  let ?event = "[(''arguments'', JObj [(''bowlId'', JNum 1)])]"
  let ?item = "[(''bowlId'', number_attr 1), (''fruitType'', string_attr ''apple''),
                (''quantity'', number_attr 5)]"
  have a: "FruitFunction_handler ''FruitTable'' (\<lambda>c. Inr (JObj [(''Item'', JObj ?item)])) ?event
             = Inr (JObj [(''type'', JStr ''apple''), (''quantity'', JNum 5)])"
    using reader_never_fails[of "''FruitTable''" "\<lambda>c. Inr (JObj [(''Item'', JObj ?item)])" ?event
            undefined "JObj [(''Item'', JObj ?item)]" ?item "Some ''apple''" "Some 5"]
    by simp
  have b: "FruitFunction_handler ''FruitTable'' (\<lambda>c. Inr (JObj [])) ?event = Inr JNull"
    using reader_never_fails[of "''FruitTable''" "\<lambda>c. Inr (JObj [])" ?event
            undefined "JObj []" "[]" None None]
    by simp
  have c: "FruitFunction_handler ''FruitTable'' (\<lambda>c. Inl (ServiceError ''ResourceNotFoundException'')) ?event
             = Inr JNull"
    using reader_never_fails[of "''FruitTable''" "\<lambda>c. Inl (ServiceError ''ResourceNotFoundException'')"
            ?event "ServiceError ''ResourceNotFoundException''" JNull "[]" None None]
    by simp
  from a b c show ?thesis by simp
qed

text \<open>
  As stated, C10 fails on stored attributes that are there but that JavaScript takes as
  false, cuts short or rounds: for a stored fruit type that is the empty string,
  \<^verbatim>\<open>fruitType?.S || null\<close> returns null; of a stored quantity 2.5, \<^verbatim>\<open>parseInt\<close> returns 2; and
  of the stored integer 9007199254740993 it returns the double 9007199254740992.
\<close>

theorem reader_falsy_attribute_counterexample:
  "map_of [(''bowlId'', number_attr 1), (''fruitType'', string_attr ''''),
           (''quantity'', JObj [(''N'', JStr ''2.5'')])] ''fruitType'' = Some (string_attr '''') \<and>
   JObj [(''N'', JStr ''2.5'')] \<noteq> number_attr 2 \<and>
   FruitFunction_handler ''FruitTable''
       (\<lambda>c. Inr (JObj [(''Item'', JObj [(''bowlId'', number_attr 1), (''fruitType'', string_attr ''''),
                                         (''quantity'', JObj [(''N'', JStr ''2.5'')])])]))
       [(''arguments'', JObj [(''bowlId'', JNum 1)])]
     = Inr (JObj [(''type'', JNull), (''quantity'', JNum 2)]) \<and>
   FruitFunction_handler ''FruitTable''
       (\<lambda>c. Inr (JObj [(''Item'', JObj [(''bowlId'', number_attr 1), (''fruitType'', string_attr ''apple''),
                                         (''quantity'', JObj [(''N'', JStr ''9007199254740993'')])])]))
       [(''arguments'', JObj [(''bowlId'', JNum 1)])]
     = Inr (JObj [(''type'', JStr ''apple''), (''quantity'', JNum 9007199254740992)])"
proof -
  have "parse_magnitude ''2.5'' = Some 2"
    by (simp add: parse_magnitude_def strip_prefix_def digits_in_def digit_value_def)
  then have p: "parseInt ''2.5'' = Finite 2"
    by (simp add: parseInt_def is_js_space_def strip_prefix_def signed_number_def to_number_def
          round_double_exact)
  have m: "parse_magnitude ''9007199254740993'' = Some 9007199254740993"
    by (simp add: parse_magnitude_def strip_prefix_def digits_in_def digit_value_def)
  have "bit_length 9007199254740993 = 54"
    by (simp add: bit_length.simps)
  then have "round_double 9007199254740993 = Some 9007199254740992"
    by (simp add: round_double_def Let_def)
  with m have b: "parseInt ''9007199254740993'' = Finite 9007199254740992"
    by (simp add: parseInt_def is_js_space_def strip_prefix_def signed_number_def to_number_def)
  have n: "JObj [(''N'', JStr ''2.5'')] \<noteq> number_attr 2"
    by (simp add: number_attr_def string_of_int_def string_of_nat.simps)
  have h: "FruitFunction_handler ''FruitTable''
       (\<lambda>c. Inr (JObj [(''Item'', JObj [(''bowlId'', number_attr 1), (''fruitType'', string_attr ''''),
                                         (''quantity'', JObj [(''N'', JStr ''2.5'')])])]))
       [(''arguments'', JObj [(''bowlId'', JNum 1)])]
     = Inr (JObj [(''type'', JNull), (''quantity'', JNum 2)])"
    by (simp add: FruitFunction_handler_def FruitFunction_try_def string_attr_def
          js_or_null_def js_String_def json_of_number_def p)
  have g: "FruitFunction_handler ''FruitTable''
       (\<lambda>c. Inr (JObj [(''Item'', JObj [(''bowlId'', number_attr 1), (''fruitType'', string_attr ''apple''),
                                         (''quantity'', JObj [(''N'', JStr ''9007199254740993'')])])]))
       [(''arguments'', JObj [(''bowlId'', JNum 1)])]
     = Inr (JObj [(''type'', JStr ''apple''), (''quantity'', JNum 9007199254740992)])"
    by (simp add: FruitFunction_handler_def FruitFunction_try_def string_attr_def
          js_or_null_def js_String_def json_of_number_def b)
  from n h g show ?thesis by simp
qed

end
